theory Spec2Isabelle
  imports Complex_Main
begin

section \<open>Python values used by the two modules\<close>

text \<open>
  The repository has two modules: \<^verbatim>\<open>firingrange.py\<close> (the text front end) and
  \<^verbatim>\<open>tdee_gui.py\<close> (the windowed front end). Both define the conversions, the
  BMR formula, an activity table and a \<^verbatim>\<open>Person\<close> class under the same names; the
  definitions of \<^verbatim>\<open>tdee_gui.py\<close> carry the prefix \<open>gui_\<close> here.

  Python's \<^verbatim>\<open>int\<close> is \<^typ>\<open>int\<close>. A \<^verbatim>\<open>str\<close> is a \<^typ>\<open>string\<close> holding its
  UTF-8 bytes, so the en dash of the windowed activity labels is the three bytes
  E2 80 93 and the em dash of the result placeholders is E2 80 94.

  Python's \<^verbatim>\<open>float\<close> is IEEE binary64. Where a property is about which formula
  is computed, which branch is taken or which error is raised, the functions are
  given over \<^typ>\<open>real\<close>, in exact arithmetic: rounding, infinities and NaN are
  outside that reading. The round trip of the conversions is a property of the
  rounding itself, so the four conversions are given a second time as binary64
  computes them, with the suffix \<open>_f64\<close>.

  The exceptions the modelled code can raise, each with its message:
\<close>

datatype error =
  ValueError string | KeyError string | OverflowError string | ZeroDivisionError string

text \<open>
  \<^verbatim>\<open>str.lower()\<close> on the UTF-8 bytes. The ASCII letters \<^verbatim>\<open>A\<close>--\<^verbatim>\<open>Z\<close> go to
  \<^verbatim>\<open>a\<close>--\<^verbatim>\<open>z\<close>. The Kelvin sign U+212A, the bytes E2 84 AA, goes to \<^verbatim>\<open>k\<close>: it
  is the one character outside ASCII whose lower case is an ASCII string. Every
  other character outside ASCII is kept as it is; Python sends some of them to other
  strings, each of which again holds a character outside ASCII, so the comparisons
  of this program, all against ASCII literals, come out the same.
\<close>

definition lower_char :: "char \<Rightarrow> char" where
  "lower_char c =
     (case map_of (zip ''ABCDEFGHIJKLMNOPQRSTUVWXYZ'' ''abcdefghijklmnopqrstuvwxyz'') c of
        Some d \<Rightarrow> d
      | None \<Rightarrow> c)"

fun lower :: "string \<Rightarrow> string" where
  "lower [] = []"
| "lower (c # s) =
     (if c = CHR 0xE2 \<and> take 2 s = [CHR 0x84, CHR 0xAA] then CHR ''k'' # lower (drop 2 s)
      else lower_char c # lower s)"

text \<open>\<^verbatim>\<open>sep.join(xs)\<close>\<close>

fun join :: "string \<Rightarrow> string list \<Rightarrow> string" where
  "join sep [] = []"
| "join sep [x] = x"
| "join sep (x # y # ys) = x @ sep @ join sep (y # ys)"

text \<open>
  A \<^verbatim>\<open>dict\<close> literal is an association list in insertion order:
  \<^verbatim>\<open>k in d\<close> is \<open>map_of d k \<noteq> None\<close>, \<^verbatim>\<open>d[k]\<close> raises \<^verbatim>\<open>KeyError\<close> on a
  missing key, and iterating \<^verbatim>\<open>d\<close> or \<^verbatim>\<open>d.keys()\<close> yields \<open>map fst d\<close>.
\<close>

definition getitem :: "(string \<times> 'v) list \<Rightarrow> string \<Rightarrow> error + 'v" where
  "getitem d k = (case map_of d k of None \<Rightarrow> Inl (KeyError k) | Some v \<Rightarrow> Inr v)"

definition keys :: "(string \<times> 'v) list \<Rightarrow> string list" where
  "keys d = map fst d"

section \<open>Conversions\<close>

definition lbs_to_kg :: "real \<Rightarrow> real" where
  "lbs_to_kg lbs = lbs * 0.45359237"

definition kg_to_lbs :: "real \<Rightarrow> real" where
  "kg_to_lbs kg = kg / 0.45359237"

definition inches_to_cm :: "real \<Rightarrow> real" where
  "inches_to_cm inches = inches * 2.54"

definition cm_to_inches :: "real \<Rightarrow> real" where
  "cm_to_inches cm = cm / 2.54"

definition gui_lbs_to_kg :: "real \<Rightarrow> real" where
  "gui_lbs_to_kg lbs = lbs * 0.45359237"

definition gui_kg_to_lbs :: "real \<Rightarrow> real" where
  "gui_kg_to_lbs kg = kg / 0.45359237"

definition gui_inches_to_cm :: "real \<Rightarrow> real" where
  "gui_inches_to_cm inches = inches * 2.54"

definition gui_cm_to_inches :: "real \<Rightarrow> real" where
  "gui_cm_to_inches cm = cm / 2.54"

section \<open>The conversions in binary64\<close>













section \<open>Core formulas\<close>

text \<open>
  A float minus an int converts the int to a float first, and the conversion raises
  when the int rounds to \<open>2 ^ 1024\<close> or beyond, that is from \<open>2 ^ 1024 - 2 ^ 970\<close> on.
\<close>

definition float_of_int :: "int \<Rightarrow> error + real" where
  "float_of_int n =
     (if \<bar>n\<bar> < 2 ^ 1024 - 2 ^ 970 then Inr (of_int n)
      else Inl (OverflowError ''int too large to convert to float''))"

text \<open>The message of the \<^verbatim>\<open>ValueError\<close> raised for a bad sex code; \<open>CHR 0x27\<close> is the apostrophe.\<close>

definition sex_message :: string where
  "sex_message =
     ''sex must be '' @ [CHR 0x27] @ ''m'' @ [CHR 0x27] @ '' or '' @ [CHR 0x27] @ ''f'' @ [CHR 0x27]"

definition bmr_mifflin_st_jeor :: "string \<Rightarrow> real \<Rightarrow> real \<Rightarrow> int \<Rightarrow> error + real" where
  "bmr_mifflin_st_jeor sex weight_kg height_cm age_years =
     (let s = lower sex in
      if s \<notin> set [''m'', ''f''] then Inl (ValueError sex_message)
      else
        case float_of_int (5 * age_years) of
          Inl e \<Rightarrow> Inl e
        | Inr t \<Rightarrow>
            let base = 10 * weight_kg + 6.25 * height_cm - t
            in Inr (if s = ''m'' then base + 5 else base - 161))"

definition gui_bmr_mifflin_st_jeor :: "string \<Rightarrow> real \<Rightarrow> real \<Rightarrow> int \<Rightarrow> error + real" where
  "gui_bmr_mifflin_st_jeor sex weight_kg height_cm age_years =
     (let s = lower sex in
      if s \<notin> set [''m'', ''f''] then Inl (ValueError sex_message)
      else
        case float_of_int (5 * age_years) of
          Inl e \<Rightarrow> Inl e
        | Inr t \<Rightarrow>
            let base = 10 * weight_kg + 6.25 * height_cm - t
            in Inr (if s = ''m'' then base + 5 else base - 161))"

section \<open>Activity tables\<close>

definition ACTIVITY_FACTORS :: "(string \<times> real) list" where
  "ACTIVITY_FACTORS =
     [(''sedentary'', 1.2),
      (''light'', 1.375),
      (''moderate'', 1.55),
      (''very'', 1.725),
      (''athlete'', 1.9)]"

definition en_dash :: string where
  "en_dash = [CHR 0xE2, CHR 0x80, CHR 0x93]"

definition em_dash :: string where
  "em_dash = [CHR 0xE2, CHR 0x80, CHR 0x94]"

definition gui_ACTIVITY_FACTORS :: "(string \<times> real) list" where
  "gui_ACTIVITY_FACTORS =
     [(''Sedentary (little/no exercise)'', 1.2),
      (''Light (1'' @ en_dash @ ''3 days/wk)'', 1.375),
      (''Moderate (3'' @ en_dash @ ''5 days/wk)'', 1.55),
      (''Very (6'' @ en_dash @ ''7 days/wk)'', 1.725),
      (''Athlete (very hard/physical job)'', 1.9)]"

definition tdee_from_bmr :: "real \<Rightarrow> string \<Rightarrow> error + real" where
  "tdee_from_bmr bmr activity_key =
     (let key = lower activity_key in
      if map_of ACTIVITY_FACTORS key = None
      then Inl (ValueError (''activity must be one of: '' @ join '', '' (keys ACTIVITY_FACTORS)))
      else map_sum id (\<lambda>factor. bmr * factor) (getitem ACTIVITY_FACTORS key))"

section \<open>Data model\<close>

record Person =
  sex :: string
  age :: int
  weight :: real
  weight_unit :: string
  height :: real
  height_unit :: string
  activity :: string

definition weight_kg :: "Person \<Rightarrow> real" where
  "weight_kg self =
     (if lower (weight_unit self) = ''kg'' then weight self else lbs_to_kg (weight self))"

definition height_cm :: "Person \<Rightarrow> real" where
  "height_cm self =
     (if lower (height_unit self) = ''cm'' then height self else inches_to_cm (height self))"

record gui_Person =
  gui_sex :: string
  gui_age :: int
  gui_weight :: real
  gui_weight_unit :: string
  gui_height :: real
  gui_height_unit :: string
  gui_activity_label :: string

definition gui_weight_kg :: "gui_Person \<Rightarrow> real" where
  "gui_weight_kg self =
     (if gui_weight_unit self = ''kg'' then gui_weight self else gui_lbs_to_kg (gui_weight self))"

definition gui_height_cm :: "gui_Person \<Rightarrow> real" where
  "gui_height_cm self =
     (if gui_height_unit self = ''cm'' then gui_height self else gui_inches_to_cm (gui_height self))"

section \<open>The windowed front end\<close>

text \<open>
  The Tk variables and the three result labels of \<^verbatim>\<open>TDEEApp\<close>; a label is
  represented by its text.
\<close>

record TDEEApp =
  sex_var :: string
  age_var :: string
  weight_var :: string
  weight_unit_var :: string
  height_var :: string
  height_unit_var :: string
  activity_var :: string
  bmr_label :: string
  tdee_label :: string
  ref_label :: string

text \<open>
  The state built by \<^verbatim>\<open>__init__\<close>. \<^verbatim>\<open>list(ACTIVITY_FACTORS.keys())[1]\<close> is in
  range, the table being a literal of five entries.
\<close>

definition init :: TDEEApp where
  "init =
     \<lparr>sex_var = ''m'',
      age_var = [],
      weight_var = [],
      weight_unit_var = ''kg'',
      height_var = [],
      height_unit_var = ''cm'',
      activity_var = keys gui_ACTIVITY_FACTORS ! 1,
      bmr_label = ''BMR (kcal/day): '' @ em_dash,
      tdee_label = ''TDEE (kcal/day): '' @ em_dash,
      ref_label = ''Reference: '' @ em_dash\<rparr>"

definition clear :: "TDEEApp \<Rightarrow> TDEEApp" where
  "clear self =
     self\<lparr>age_var := [],
          weight_var := [],
          height_var := [],
          sex_var := ''m'',
          weight_unit_var := ''kg'',
          height_unit_var := ''cm'',
          activity_var := keys gui_ACTIVITY_FACTORS ! 1,
          bmr_label := ''BMR (kcal/day): '' @ em_dash,
          tdee_label := ''TDEE (kcal/day): '' @ em_dash,
          ref_label := ''Reference: '' @ em_dash\<rparr>"

text \<open>
  The interpreter's built-ins that \<^verbatim>\<open>compute\<close> calls are a parameter:
  \<open>py_int\<close> and \<open>py_float\<close> are \<^verbatim>\<open>int(s)\<close> and \<^verbatim>\<open>float(s)\<close> on a string, where
  \<open>Inl m\<close> stands for \<^verbatim>\<open>ValueError(m)\<close>; \<open>py_format n x\<close> is \<^verbatim>\<open>format(x, ".nf")\<close>;
  \<open>py_repr k\<close> is \<^verbatim>\<open>repr(k)\<close>, which is what \<^verbatim>\<open>str(KeyError(k))\<close> gives.
\<close>

record builtins =
  py_int :: "string \<Rightarrow> string + int"
  py_float :: "string \<Rightarrow> string + real"
  py_format :: "nat \<Rightarrow> real \<Rightarrow> string"
  py_repr :: "string \<Rightarrow> string"

text \<open>The sanity checks of \<^verbatim>\<open>compute\<close>, in the order of the source.\<close>

definition sanity_checks :: "int \<Rightarrow> real \<Rightarrow> string \<Rightarrow> real \<Rightarrow> string \<Rightarrow> error + unit" where
  "sanity_checks age' weight' w_unit height' h_unit =
     (if \<not> (14 \<le> age' \<and> age' \<le> 90) then
        Inl (ValueError ''Age must be between 14 and 90.'')
      else if w_unit = ''kg'' \<and> \<not> (30 \<le> weight' \<and> weight' \<le> 300) then
        Inl (ValueError ''Weight in kg must be between 30 and 300.'')
      else if w_unit = ''lb'' \<and> \<not> (66 \<le> weight' \<and> weight' \<le> 660) then
        Inl (ValueError ''Weight in lb must be between 66 and 660.'')
      else if h_unit = ''cm'' \<and> \<not> (120 \<le> height' \<and> height' \<le> 220) then
        Inl (ValueError ''Height in cm must be between 120 and 220.'')
      else if h_unit = ''in'' \<and> \<not> (47 \<le> height' \<and> height' \<le> 87) then
        Inl (ValueError ''Height in inches must be between 47 and 87.'')
      else Inr ())"

text \<open>
  The body of the \<^verbatim>\<open>try\<close> block of \<^verbatim>\<open>compute\<close>. Every statement that can raise
  comes before the first write to a label, and the three writes cannot raise, so an
  exception leaves the state as it was on entry and the block either raises or
  returns the state with all three labels set.
\<close>

definition compute_try :: "builtins \<Rightarrow> TDEEApp \<Rightarrow> error + TDEEApp" where
  "compute_try B self =
     (case py_int B (age_var self) of Inl m \<Rightarrow> Inl (ValueError m) | Inr age' \<Rightarrow>
     (case py_float B (weight_var self) of Inl m \<Rightarrow> Inl (ValueError m) | Inr weight' \<Rightarrow>
     (case py_float B (height_var self) of Inl m \<Rightarrow> Inl (ValueError m) | Inr height' \<Rightarrow>
      let sex' = sex_var self;
          w_unit = weight_unit_var self;
          h_unit = height_unit_var self;
          activity' = activity_var self
      in
     (case sanity_checks age' weight' w_unit height' h_unit of Inl e \<Rightarrow> Inl e | Inr _ \<Rightarrow>
      let person = \<lparr>gui_sex = sex', gui_age = age',
                    gui_weight = weight', gui_weight_unit = w_unit,
                    gui_height = height', gui_height_unit = h_unit,
                    gui_activity_label = activity'\<rparr>;
          w_kg = gui_weight_kg person;
          h_cm = gui_height_cm person
      in
     (case gui_bmr_mifflin_st_jeor (gui_sex person) w_kg h_cm (gui_age person) of
        Inl e \<Rightarrow> Inl e | Inr bmr \<Rightarrow>
     (case getitem gui_ACTIVITY_FACTORS activity' of Inl e \<Rightarrow> Inl e | Inr factor \<Rightarrow>
      let tdee = bmr * factor in
      Inr (self\<lparr>bmr_label := ''BMR (kcal/day): '' @ py_format B 0 bmr,
                tdee_label := ''TDEE (kcal/day): '' @ py_format B 0 tdee,
                ref_label :=
                  ''Reference: weight '' @ py_format B 1 w_kg @ '' kg (''
                  @ py_format B 1 (gui_kg_to_lbs w_kg) @ '' lb), ''
                  @ ''height '' @ py_format B 1 h_cm @ '' cm (''
                  @ py_format B 1 (gui_cm_to_inches h_cm) @ '' in), ''
                  @ ''activity factor '' @ py_format B 3 factor\<rparr>)))))))"

text \<open>
  \<^verbatim>\<open>messagebox.showerror(title, message)\<close> is the dialog that \<^verbatim>\<open>compute\<close> hands back
  beside the new state; \<open>CHR 0x0A\<close> is the newline. \<open>py_str\<close> is \<^verbatim>\<open>str(e)\<close> of an
  exception: its message, and for a \<^verbatim>\<open>KeyError\<close> the \<^verbatim>\<open>repr\<close> of the key.
\<close>

datatype dialog = showerror string string

fun py_str :: "builtins \<Rightarrow> error \<Rightarrow> string" where
  "py_str B (ValueError m) = m"
| "py_str B (KeyError k) = py_repr B k"
| "py_str B (OverflowError m) = m"
| "py_str B (ZeroDivisionError m) = m"

definition compute :: "builtins \<Rightarrow> TDEEApp \<Rightarrow> TDEEApp \<times> dialog option" where
  "compute B self =
     (case compute_try B self of
        Inr self' \<Rightarrow> (self', None)
      | Inl (ValueError m) \<Rightarrow> (self, Some (showerror ''Invalid input'' m))
      | Inl e \<Rightarrow>
          (self, Some (showerror ''Error'' (''Something went wrong:'' @ [CHR 0x0A] @ py_str B e))))"

section \<open>Facts about the string helpers and the tables\<close>

lemma lower_char_simps:
  "lower_char c = CHR ''m'' \<longleftrightarrow> c = CHR ''m'' \<or> c = CHR ''M''"
  "lower_char c = CHR ''f'' \<longleftrightarrow> c = CHR ''f'' \<or> c = CHR ''F''"
  "lower_char c = CHR ''k'' \<longleftrightarrow> c = CHR ''k'' \<or> c = CHR ''K''"
  "lower_char c = CHR ''g'' \<longleftrightarrow> c = CHR ''g'' \<or> c = CHR ''G''"
  "lower_char c = CHR ''c'' \<longleftrightarrow> c = CHR ''c'' \<or> c = CHR ''C''"
  by (simp_all add: lower_char_def)

lemma lower_eq_Nil: "lower s = [] \<longleftrightarrow> s = []"
  by (cases s) simp_all

lemma take2_eq: "take 2 s = [a, b] \<longleftrightarrow> (\<exists>t. s = a # b # t)"
  by (cases s; cases "tl s") auto

lemma lower_single:
  "lower s = [d] \<longleftrightarrow>
     (\<exists>c. s = [c] \<and> lower_char c = d) \<or> (s = [CHR 0xE2, CHR 0x84, CHR 0xAA] \<and> d = CHR ''k'')"
  by (cases s) (auto simp: lower_eq_Nil take2_eq)

lemma lower_sex_codes:
  "lower sx = ''m'' \<longleftrightarrow> sx = ''m'' \<or> sx = ''M''"
  "lower sx = ''f'' \<longleftrightarrow> sx = ''f'' \<or> sx = ''F''"
  by (auto simp: lower_single lower_char_simps)


lemma join_keys:
  "join '', '' (keys ACTIVITY_FACTORS) = ''sedentary, light, moderate, very, athlete''"
  by (simp add: keys_def ACTIVITY_FACTORS_def)

lemma map_of_ACTIVITY_FACTORS:
  "map_of ACTIVITY_FACTORS k =
     (if k = ''sedentary'' then Some 1.2
      else if k = ''light'' then Some 1.375
      else if k = ''moderate'' then Some 1.55
      else if k = ''very'' then Some 1.725
      else if k = ''athlete'' then Some 1.9
      else None)"
  by (simp add: ACTIVITY_FACTORS_def)

lemma float_of_int_small: "\<bar>n\<bar> < 2 ^ 1024 - 2 ^ 970 \<Longrightarrow> float_of_int n = Inr (of_int n)"
  by (simp only: float_of_int_def if_True)

lemma float_of_int_large:
  "2 ^ 1024 - 2 ^ 970 \<le> \<bar>n\<bar> \<Longrightarrow>
   float_of_int n = Inl (OverflowError ''int too large to convert to float'')"
  unfolding float_of_int_def by (simp only: not_less [symmetric] if_False)

lemma float_of_int_small_values:
  "float_of_int (5 * 25) = Inr (of_int (5 * 25))" "float_of_int (5 * 30) = Inr (of_int (5 * 30))"
  by (rule float_of_int_small, simp)+

section \<open>Facts about binary64 rounding\<close>













section \<open>The formula engine\<close>

text \<open>
  C1. For every weight and height and every age whose fivefold the interpreter can
  convert to a float, that is \<open>\<bar>5 * age_years\<bar> < 2 ^ 1024 - 2 ^ 970\<close>,
  \<^verbatim>\<open>bmr_mifflin_st_jeor\<close> returns \<open>10 * weight_kg + 6.25 * height_cm - 5 * age_years\<close>
  plus 5 when the sex code lowers to \<^verbatim>\<open>m\<close> and minus 161 when it lowers to \<^verbatim>\<open>f\<close>.
  For a larger age and a valid sex code the subtraction raises \<^verbatim>\<open>OverflowError\<close>.
  The two worked values are 1673.75 and 1320.25.
\<close>

theorem bmr_formula:
  "(lower sx = ''m'' \<and> \<bar>5 * a\<bar> < 2 ^ 1024 - 2 ^ 970 \<longrightarrow>
      bmr_mifflin_st_jeor sx w h a = Inr (10 * w + 6.25 * h - 5 * of_int a + 5))
   \<and> (lower sx = ''f'' \<and> \<bar>5 * a\<bar> < 2 ^ 1024 - 2 ^ 970 \<longrightarrow>
      bmr_mifflin_st_jeor sx w h a = Inr (10 * w + 6.25 * h - 5 * of_int a - 161))
   \<and> ((lower sx = ''m'' \<or> lower sx = ''f'') \<and> 2 ^ 1024 - 2 ^ 970 \<le> \<bar>5 * a\<bar> \<longrightarrow>
      bmr_mifflin_st_jeor sx w h a = Inl (OverflowError ''int too large to convert to float''))
   \<and> bmr_mifflin_st_jeor ''m'' 70 175 25 = Inr 1673.75
   \<and> bmr_mifflin_st_jeor ''f'' 60 165 30 = Inr 1320.25"
proof -
  have m: "bmr_mifflin_st_jeor sx w h a = Inr (10 * w + 6.25 * h - 5 * of_int a + 5)"
    if "lower sx = ''m''" "float_of_int (5 * a) = Inr (of_int (5 * a))" for sx w h a
    using that by (simp add: bmr_mifflin_st_jeor_def Let_def)
  have f: "bmr_mifflin_st_jeor sx w h a = Inr (10 * w + 6.25 * h - 5 * of_int a - 161)"
    if "lower sx = ''f''" "float_of_int (5 * a) = Inr (of_int (5 * a))" for sx w h a
    using that by (simp add: bmr_mifflin_st_jeor_def Let_def)
  have o: "bmr_mifflin_st_jeor sx w h a = Inl (OverflowError ''int too large to convert to float'')"
    if "lower sx = ''m'' \<or> lower sx = ''f''"
      "float_of_int (5 * a) = Inl (OverflowError ''int too large to convert to float'')"
    using that by (auto simp: bmr_mifflin_st_jeor_def Let_def)
  have l: "lower ''m'' = ''m''" "lower ''f'' = ''f''" by (simp_all add: lower_char_def)
  have e1: "bmr_mifflin_st_jeor ''m'' 70 175 25 = Inr 1673.75"
    using m [OF l(1), of 25 70 175] float_of_int_small_values by simp
  have e2: "bmr_mifflin_st_jeor ''f'' 60 165 30 = Inr 1320.25"
    using f [OF l(2), of 30 60 165] float_of_int_small_values by simp
  from m [of sx a w h] f [of sx a w h] o e1 e2
    float_of_int_small [of "5 * a"] float_of_int_large [of "5 * a"]
  show ?thesis by blast
qed

theorem bmr_formula_witness:
  "lower ''M'' = ''m'' \<and> lower ''F'' = ''f''
   \<and> \<bar>5 * 25 :: int\<bar> < 2 ^ 1024 - 2 ^ 970 \<and> \<bar>5 * 30 :: int\<bar> < 2 ^ 1024 - 2 ^ 970
   \<and> bmr_mifflin_st_jeor ''M'' 70 175 25 = Inr 1673.75
   \<and> bmr_mifflin_st_jeor ''F'' 60 165 30 = Inr 1320.25
   \<and> 2 ^ 1024 - 2 ^ 970 \<le> \<bar>5 * 10 ^ 400 :: int\<bar>
   \<and> bmr_mifflin_st_jeor ''F'' 60 165 (10 ^ 400)
       = Inl (OverflowError ''int too large to convert to float'')"
proof -
  have l: "lower ''M'' = ''m''" "lower ''F'' = ''f''" by (simp_all add: lower_char_def)
  have s1: "\<bar>5 * 25 :: int\<bar> < 2 ^ 1024 - 2 ^ 970" by simp
  have s2: "\<bar>5 * 30 :: int\<bar> < 2 ^ 1024 - 2 ^ 970" by simp
  have s3: "2 ^ 1024 - 2 ^ 970 \<le> \<bar>5 * 10 ^ 400 :: int\<bar>" by simp
  have "bmr_mifflin_st_jeor ''M'' 70 175 25 = Inr (10 * 70 + 6.25 * 175 - 5 * of_int 25 + 5)"
    using bmr_formula [of "''M''" 25 70 175] l(1) s1 by blast
  then have a: "bmr_mifflin_st_jeor ''M'' 70 175 25 = Inr 1673.75" by simp
  have "bmr_mifflin_st_jeor ''F'' 60 165 30 = Inr (10 * 60 + 6.25 * 165 - 5 * of_int 30 - 161)"
    using bmr_formula [of "''F''" 30 60 165] l(2) s2 by blast
  then have b: "bmr_mifflin_st_jeor ''F'' 60 165 30 = Inr 1320.25" by simp
  have c: "bmr_mifflin_st_jeor ''F'' 60 165 (10 ^ 400)
       = Inl (OverflowError ''int too large to convert to float'')"
    using bmr_formula [of "''F''" "10 ^ 400" 60 165] l(2) s3 by blast
  from l s1 s2 s3 a b c show ?thesis by blast
qed

text \<open>
  The statement for every integer age fails: at age \<open>10 ^ 400\<close>, which the text
  front end accepts, the call raises instead of returning.
\<close>

theorem bmr_formula_counterexample:
  "lower ''m'' = ''m''
   \<and> bmr_mifflin_st_jeor ''m'' 70 175 (10 ^ 400)
       = Inl (OverflowError ''int too large to convert to float'')
   \<and> bmr_mifflin_st_jeor ''m'' 70 175 (10 ^ 400)
       \<noteq> Inr (10 * 70 + 6.25 * 175 - 5 * of_int (10 ^ 400) + 5)"
proof -
  have l: "lower ''m'' = ''m''" by (simp add: lower_char_def)
  have "2 ^ 1024 - 2 ^ 970 \<le> \<bar>5 * 10 ^ 400 :: int\<bar>" by simp
  then have "float_of_int (5 * 10 ^ 400) = Inl (OverflowError ''int too large to convert to float'')"
    by (rule float_of_int_large)
  with l have e: "bmr_mifflin_st_jeor ''m'' 70 175 (10 ^ 400)
       = Inl (OverflowError ''int too large to convert to float'')"
    unfolding bmr_mifflin_st_jeor_def Let_def by (simp only: list.set) simp
  then have "bmr_mifflin_st_jeor ''m'' 70 175 (10 ^ 400)
       \<noteq> Inr (10 * 70 + 6.25 * 175 - 5 * of_int (10 ^ 400) + 5)"
    by (simp only: sum.distinct not_False_eq_True)
  with l e show ?thesis by blast
qed

text \<open>
  C2. \<^verbatim>\<open>tdee_from_bmr\<close> looks the lowered key up in the activity table and returns
  the BMR times the multiplier found; when the lowered key is not in the table it
  raises a \<^verbatim>\<open>ValueError\<close> whose message lists the five keys; it returns a value
  exactly when the lowered key is one of the five keys.
\<close>

theorem tdee_lookup:
  "(map_of ACTIVITY_FACTORS (lower k) = Some factor \<longrightarrow>
       tdee_from_bmr b k = Inr (b * factor))
   \<and> (map_of ACTIVITY_FACTORS (lower k) = None \<longrightarrow>
       tdee_from_bmr b k =
         Inl (ValueError ''activity must be one of: sedentary, light, moderate, very, athlete''))
   \<and> (\<not> isl (tdee_from_bmr b k) \<longleftrightarrow>
       lower k \<in> {''sedentary'', ''light'', ''moderate'', ''very'', ''athlete''})
   \<and> tdee_from_bmr 1673.75 ''sedentary'' = Inr 2008.5
   \<and> tdee_from_bmr b ''unknown_key'' =
       Inl (ValueError ''activity must be one of: sedentary, light, moderate, very, athlete'')"
proof -
  have some: "tdee_from_bmr b k = Inr (b * factor)"
    if "map_of ACTIVITY_FACTORS (lower k) = Some factor"
    using that by (simp add: tdee_from_bmr_def Let_def getitem_def)
  have none: "tdee_from_bmr b' k' =
      Inl (ValueError ''activity must be one of: sedentary, light, moderate, very, athlete'')"
    if "map_of ACTIVITY_FACTORS (lower k') = None" for b' k'
    using that by (simp add: tdee_from_bmr_def Let_def join_keys)
  have iff: "\<not> isl (tdee_from_bmr b k) \<longleftrightarrow>
      lower k \<in> {''sedentary'', ''light'', ''moderate'', ''very'', ''athlete''}"
    by (simp add: tdee_from_bmr_def Let_def getitem_def map_of_ACTIVITY_FACTORS)
  have ex: "tdee_from_bmr 1673.75 ''sedentary'' = Inr 2008.5"
    by (simp add: tdee_from_bmr_def Let_def getitem_def map_of_ACTIVITY_FACTORS
        lower_char_def)
  have unk: "map_of ACTIVITY_FACTORS (lower ''unknown_key'') = None"
    by (simp add: map_of_ACTIVITY_FACTORS lower_char_def)
  from some none iff ex none [OF unk] show ?thesis by blast
qed

theorem tdee_lookup_witness:
  "map_of ACTIVITY_FACTORS (lower ''Very'') = Some 1.725
   \<and> tdee_from_bmr 2000 ''Very'' = Inr 3450
   \<and> map_of ACTIVITY_FACTORS (lower ''couch'') = None
   \<and> tdee_from_bmr 2000 ''couch'' =
       Inl (ValueError ''activity must be one of: sedentary, light, moderate, very, athlete'')"
proof -
  have a: "map_of ACTIVITY_FACTORS (lower ''Very'') = Some 1.725"
    by (simp add: map_of_ACTIVITY_FACTORS lower_char_def)
  have b: "map_of ACTIVITY_FACTORS (lower ''couch'') = None"
    by (simp add: map_of_ACTIVITY_FACTORS lower_char_def)
  from a b tdee_lookup [where k = "''Very''" and factor = "1.725" and b = 2000]
    tdee_lookup [where k = "''couch''" and b = 2000]
  show ?thesis by simp
qed

text \<open>
  C3. In both modules \<^verbatim>\<open>bmr_mifflin_st_jeor\<close> raises a \<^verbatim>\<open>ValueError\<close>, and then the
  one about the sex code, exactly when the lowered sex argument is neither \<^verbatim>\<open>m\<close>
  nor \<^verbatim>\<open>f\<close>, that is when the argument is none of \<^verbatim>\<open>m\<close>, \<^verbatim>\<open>M\<close>, \<^verbatim>\<open>f\<close>,
  \<^verbatim>\<open>F\<close>; for an age the interpreter can convert to a float it raises nothing
  else, so it fails at all exactly then. The call with \<^verbatim>\<open>x\<close> fails in either casing.
\<close>

theorem bmr_fails_iff:
  "(bmr_mifflin_st_jeor sx w h a = Inl (ValueError sex_message)
      \<longleftrightarrow> lower sx \<noteq> ''m'' \<and> lower sx \<noteq> ''f'')
   \<and> ((\<exists>msg. bmr_mifflin_st_jeor sx w h a = Inl (ValueError msg))
      \<longleftrightarrow> lower sx \<noteq> ''m'' \<and> lower sx \<noteq> ''f'')
   \<and> (\<bar>5 * a\<bar> < 2 ^ 1024 - 2 ^ 970 \<longrightarrow>
        (isl (bmr_mifflin_st_jeor sx w h a) \<longleftrightarrow> lower sx \<noteq> ''m'' \<and> lower sx \<noteq> ''f''))
   \<and> (gui_bmr_mifflin_st_jeor sx w h a = Inl (ValueError sex_message)
      \<longleftrightarrow> lower sx \<noteq> ''m'' \<and> lower sx \<noteq> ''f'')
   \<and> ((\<exists>msg. gui_bmr_mifflin_st_jeor sx w h a = Inl (ValueError msg))
      \<longleftrightarrow> lower sx \<noteq> ''m'' \<and> lower sx \<noteq> ''f'')
   \<and> (\<bar>5 * a\<bar> < 2 ^ 1024 - 2 ^ 970 \<longrightarrow>
        (isl (gui_bmr_mifflin_st_jeor sx w h a) \<longleftrightarrow> lower sx \<noteq> ''m'' \<and> lower sx \<noteq> ''f''))
   \<and> (lower sx \<noteq> ''m'' \<and> lower sx \<noteq> ''f'' \<longleftrightarrow> sx \<notin> {''m'', ''M'', ''f'', ''F''})
   \<and> bmr_mifflin_st_jeor ''x'' 70 175 25 = Inl (ValueError sex_message)
   \<and> bmr_mifflin_st_jeor ''X'' 70 175 25 = Inl (ValueError sex_message)
   \<and> gui_bmr_mifflin_st_jeor ''x'' 70 175 25 = Inl (ValueError sex_message)
   \<and> gui_bmr_mifflin_st_jeor ''X'' 70 175 25 = Inl (ValueError sex_message)"
proof -
  have v: "bmr_mifflin_st_jeor sx w h a = Inl (ValueError sex_message)"
      "gui_bmr_mifflin_st_jeor sx w h a = Inl (ValueError sex_message)"
    if "lower sx \<noteq> ''m'' \<and> lower sx \<noteq> ''f''" for sx w h a
    using that by (simp_all add: bmr_mifflin_st_jeor_def gui_bmr_mifflin_st_jeor_def Let_def)
  have n: "\<nexists>msg. bmr_mifflin_st_jeor sx w h a = Inl (ValueError msg)"
      "\<nexists>msg. gui_bmr_mifflin_st_jeor sx w h a = Inl (ValueError msg)"
    if "\<not> (lower sx \<noteq> ''m'' \<and> lower sx \<noteq> ''f'')"
    using that
    by (auto simp: bmr_mifflin_st_jeor_def gui_bmr_mifflin_st_jeor_def Let_def float_of_int_def
        split: if_splits)
  have r: "\<not> isl (bmr_mifflin_st_jeor sx w h a)" "\<not> isl (gui_bmr_mifflin_st_jeor sx w h a)"
    if "\<not> (lower sx \<noteq> ''m'' \<and> lower sx \<noteq> ''f'')" "\<bar>5 * a\<bar> < 2 ^ 1024 - 2 ^ 970"
    using that(1) float_of_int_small [OF that(2)]
    by (auto simp: bmr_mifflin_st_jeor_def gui_bmr_mifflin_st_jeor_def Let_def)
  have c: "lower sx \<noteq> ''m'' \<and> lower sx \<noteq> ''f'' \<longleftrightarrow> sx \<notin> {''m'', ''M'', ''f'', ''F''}"
    by (auto simp: lower_sex_codes)
  have x: "lower ''x'' \<noteq> ''m'' \<and> lower ''x'' \<noteq> ''f''" "lower ''X'' \<noteq> ''m'' \<and> lower ''X'' \<noteq> ''f''"
    by (simp_all add: lower_char_def)
  have i: "isl (bmr_mifflin_st_jeor sx w h a)" "isl (gui_bmr_mifflin_st_jeor sx w h a)"
    if "lower sx \<noteq> ''m'' \<and> lower sx \<noteq> ''f''"
    using v [OF that, of w h a] by simp_all
  from v [of sx w h a] n r i c v [OF x(1), of 70 175 25] v [OF x(2), of 70 175 25]
  show ?thesis by blast
qed

theorem bmr_fails_iff_witness:
  "\<bar>5 * 25 :: int\<bar> < 2 ^ 1024 - 2 ^ 970
   \<and> isl (bmr_mifflin_st_jeor ''q'' 70 175 25)
   \<and> \<not> isl (bmr_mifflin_st_jeor ''M'' 70 175 25)
   \<and> isl (gui_bmr_mifflin_st_jeor ''q'' 70 175 25)
   \<and> \<not> isl (gui_bmr_mifflin_st_jeor ''F'' 70 175 25)"
proof -
  have s: "\<bar>5 * 25 :: int\<bar> < 2 ^ 1024 - 2 ^ 970" by simp
  have l: "lower ''q'' \<noteq> ''m'' \<and> lower ''q'' \<noteq> ''f''" "\<not> (lower ''M'' \<noteq> ''m'' \<and> lower ''M'' \<noteq> ''f'')"
    "\<not> (lower ''F'' \<noteq> ''m'' \<and> lower ''F'' \<noteq> ''f'')"
    by (simp_all add: lower_char_def)
  note c3 = conjunct2 [THEN conjunct2, THEN conjunct1]
  note c6 = conjunct2 [THEN conjunct2, THEN conjunct2, THEN conjunct2, THEN conjunct2,
      THEN conjunct1]
  have a: "isl (bmr_mifflin_st_jeor ''q'' 70 175 25)"
    using bmr_fails_iff [of "''q''" 70 175 25, THEN c3] s l(1) by blast
  have b: "\<not> isl (bmr_mifflin_st_jeor ''M'' 70 175 25)"
    using bmr_fails_iff [of "''M''" 70 175 25, THEN c3] s l(2) by blast
  have c: "isl (gui_bmr_mifflin_st_jeor ''q'' 70 175 25)"
    using bmr_fails_iff [of "''q''" 70 175 25, THEN c6] s l(1) by blast
  have d: "\<not> isl (gui_bmr_mifflin_st_jeor ''F'' 70 175 25)"
    using bmr_fails_iff [of "''F''" 70 175 25, THEN c6] s l(3) by blast
  from s a b c d show ?thesis by blast
qed

section \<open>The unit converter\<close>




text \<open>
  C5. The four conversions are total functions of a real argument: pounds to
  kilograms multiplies by 0.45359237, kilograms to pounds multiplies by
  1/0.45359237, inches to centimetres multiplies by 2.54 and centimetres to inches
  divides by 2.54, also at zero and at negative arguments.
\<close>

theorem conversions_compute:
  "lbs_to_kg x = x * 0.45359237
   \<and> kg_to_lbs x = x * (1 / 0.45359237)
   \<and> inches_to_cm x = x * 2.54
   \<and> cm_to_inches x = x / 2.54
   \<and> lbs_to_kg (- 1) = - 0.45359237
   \<and> kg_to_lbs 0 = 0
   \<and> inches_to_cm (- 10) = - 25.4
   \<and> cm_to_inches (- 2.54) = - 1"
  by (simp add: lbs_to_kg_def kg_to_lbs_def inches_to_cm_def cm_to_inches_def)

section \<open>The activity tables\<close>

text \<open>
  C6. Each front end's activity table has exactly five entries with distinct keys;
  the multipliers are 1.2, 1.375, 1.55, 1.725, 1.9 in table order, strictly
  increasing and each at least 1, and the two tables hold the same multipliers.
\<close>

theorem activity_tables:
  "length ACTIVITY_FACTORS = 5
   \<and> length gui_ACTIVITY_FACTORS = 5
   \<and> distinct (keys ACTIVITY_FACTORS)
   \<and> distinct (keys gui_ACTIVITY_FACTORS)
   \<and> map snd ACTIVITY_FACTORS = [1.2, 1.375, 1.55, 1.725, 1.9]
   \<and> map snd gui_ACTIVITY_FACTORS = [1.2, 1.375, 1.55, 1.725, 1.9]
   \<and> map snd gui_ACTIVITY_FACTORS = map snd ACTIVITY_FACTORS
   \<and> sorted_wrt (<) (map snd ACTIVITY_FACTORS)
   \<and> sorted_wrt (<) (map snd gui_ACTIVITY_FACTORS)
   \<and> list_all (\<lambda>m. 1 \<le> m) (map snd ACTIVITY_FACTORS)
   \<and> list_all (\<lambda>m. 1 \<le> m) (map snd gui_ACTIVITY_FACTORS)"
  by (simp add: ACTIVITY_FACTORS_def gui_ACTIVITY_FACTORS_def keys_def en_dash_def)

section \<open>The data model\<close>




section \<open>The windowed front end: validation, compute and clear\<close>

lemma compute_try_Inl_unchanged:
  "isl (compute_try B self) \<Longrightarrow> fst (compute B self) = self \<and> snd (compute B self) \<noteq> None"
  by (cases "compute_try B self") (auto simp: compute_def split: error.splits)

lemma compute_fails_iff: "snd (compute B self) \<noteq> None \<longleftrightarrow> isl (compute_try B self)"
  by (cases "compute_try B self") (auto simp: compute_def split: error.splits)

lemma compute_try_parse_fails:
  "isl (py_int B (age_var self)) \<or> isl (py_float B (weight_var self))
     \<or> isl (py_float B (height_var self)) \<Longrightarrow> isl (compute_try B self)"
  by (auto simp: compute_try_def Let_def split: sum.splits)

lemma compute_try_check_fails:
  "py_int B (age_var self) = Inr a \<Longrightarrow> py_float B (weight_var self) = Inr w \<Longrightarrow>
   py_float B (height_var self) = Inr h \<Longrightarrow>
   isl (sanity_checks a w (weight_unit_var self) h (height_unit_var self)) \<Longrightarrow>
   isl (compute_try B self)"
  by (auto simp: compute_try_def Let_def split: sum.splits)

lemma compute_try_sex_fails:
  "lower (sex_var self) \<noteq> ''m'' \<Longrightarrow> lower (sex_var self) \<noteq> ''f'' \<Longrightarrow>
   isl (compute_try B self)"
  by (auto simp: compute_try_def Let_def gui_bmr_mifflin_st_jeor_def split: sum.splits)

text \<open>
  C7. The sanity checks of the windowed front end accept exactly when the age is
  between 14 and 90 inclusive, the weight is between 30 and 300 when the unit is
  \<^verbatim>\<open>kg\<close> and between 66 and 660 when it is \<^verbatim>\<open>lb\<close>, and the height is between
  120 and 220 when the unit is \<^verbatim>\<open>cm\<close> and between 47 and 87 when it is \<^verbatim>\<open>in\<close>.
  Every rejection is a \<^verbatim>\<open>ValueError\<close> whose message names the bound that is
  violated. Ages 10 and 95 are rejected whatever the other inputs are; ages 14 and
  90 are accepted.
\<close>

theorem sanity_checks_accepts_iff:
  "(sanity_checks a w wu h hu = Inr () \<longleftrightarrow>
      14 \<le> a \<and> a \<le> 90
      \<and> (wu = ''kg'' \<longrightarrow> 30 \<le> w \<and> w \<le> 300)
      \<and> (wu = ''lb'' \<longrightarrow> 66 \<le> w \<and> w \<le> 660)
      \<and> (hu = ''cm'' \<longrightarrow> 120 \<le> h \<and> h \<le> 220)
      \<and> (hu = ''in'' \<longrightarrow> 47 \<le> h \<and> h \<le> 87))
   \<and> (sanity_checks a w wu h hu = Inl e \<longrightarrow>
        e = ValueError ''Age must be between 14 and 90.'' \<and> \<not> (14 \<le> a \<and> a \<le> 90)
      \<or> e = ValueError ''Weight in kg must be between 30 and 300.''
          \<and> wu = ''kg'' \<and> \<not> (30 \<le> w \<and> w \<le> 300)
      \<or> e = ValueError ''Weight in lb must be between 66 and 660.''
          \<and> wu = ''lb'' \<and> \<not> (66 \<le> w \<and> w \<le> 660)
      \<or> e = ValueError ''Height in cm must be between 120 and 220.''
          \<and> hu = ''cm'' \<and> \<not> (120 \<le> h \<and> h \<le> 220)
      \<or> e = ValueError ''Height in inches must be between 47 and 87.''
          \<and> hu = ''in'' \<and> \<not> (47 \<le> h \<and> h \<le> 87))
   \<and> sanity_checks 10 w wu h hu = Inl (ValueError ''Age must be between 14 and 90.'')
   \<and> sanity_checks 95 w wu h hu = Inl (ValueError ''Age must be between 14 and 90.'')
   \<and> sanity_checks 14 70 ''kg'' 175 ''cm'' = Inr ()
   \<and> sanity_checks 90 154 ''lb'' 69 ''in'' = Inr ()"
proof -
  have acc: "sanity_checks a w wu h hu = Inr () \<longleftrightarrow>
      14 \<le> a \<and> a \<le> 90
      \<and> (wu = ''kg'' \<longrightarrow> 30 \<le> w \<and> w \<le> 300)
      \<and> (wu = ''lb'' \<longrightarrow> 66 \<le> w \<and> w \<le> 660)
      \<and> (hu = ''cm'' \<longrightarrow> 120 \<le> h \<and> h \<le> 220)
      \<and> (hu = ''in'' \<longrightarrow> 47 \<le> h \<and> h \<le> 87)"
    unfolding sanity_checks_def by (simp split: if_splits) blast
  have rej: "sanity_checks a w wu h hu = Inl e \<longrightarrow>
        e = ValueError ''Age must be between 14 and 90.'' \<and> \<not> (14 \<le> a \<and> a \<le> 90)
      \<or> e = ValueError ''Weight in kg must be between 30 and 300.''
          \<and> wu = ''kg'' \<and> \<not> (30 \<le> w \<and> w \<le> 300)
      \<or> e = ValueError ''Weight in lb must be between 66 and 660.''
          \<and> wu = ''lb'' \<and> \<not> (66 \<le> w \<and> w \<le> 660)
      \<or> e = ValueError ''Height in cm must be between 120 and 220.''
          \<and> hu = ''cm'' \<and> \<not> (120 \<le> h \<and> h \<le> 220)
      \<or> e = ValueError ''Height in inches must be between 47 and 87.''
          \<and> hu = ''in'' \<and> \<not> (47 \<le> h \<and> h \<le> 87)"
    unfolding sanity_checks_def by (auto split: if_splits)
  have ex: "sanity_checks 10 w wu h hu = Inl (ValueError ''Age must be between 14 and 90.'')"
    "sanity_checks 95 w wu h hu = Inl (ValueError ''Age must be between 14 and 90.'')"
    "sanity_checks 14 70 ''kg'' 175 ''cm'' = Inr ()"
    "sanity_checks 90 154 ''lb'' 69 ''in'' = Inr ()"
    by (simp_all add: sanity_checks_def)
  from acc rej ex show ?thesis by blast
qed

theorem sanity_checks_accepts_iff_witness:
  "sanity_checks 40 80 ''kg'' 180 ''cm'' = Inr ()
   \<and> sanity_checks 40 700 ''lb'' 180 ''cm''
       = Inl (ValueError ''Weight in lb must be between 66 and 660.'')"
proof -
  have acc: "sanity_checks 40 80 ''kg'' 180 ''cm'' = Inr ()"
    using sanity_checks_accepts_iff
      [where a = 40 and w = 80 and wu = "''kg''" and h = 180 and hu = "''cm''"]
    by simp
  have "sanity_checks 40 700 ''lb'' 180 ''cm'' \<noteq> Inr ()"
    using sanity_checks_accepts_iff
      [where a = 40 and w = 700 and wu = "''lb''" and h = 180 and hu = "''cm''"]
    by simp
  then obtain e where e: "sanity_checks 40 700 ''lb'' 180 ''cm'' = Inl e"
    by (cases "sanity_checks 40 700 ''lb'' 180 ''cm''") auto
  with sanity_checks_accepts_iff
      [where a = 40 and w = 700 and wu = "''lb''" and h = 180 and hu = "''cm''" and e = e]
  have "e = ValueError ''Weight in lb must be between 66 and 660.''"
    by simp
  with acc e show ?thesis by simp
qed

text \<open>
  C8. When \<^verbatim>\<open>compute\<close> fails, that is when it shows an error dialog, the three
  result labels hold the texts they held before. It fails when a field does not
  parse, when a sanity check is violated, when the formula rejects the sex code,
  and when the activity label is not a key of the table.
\<close>

theorem compute_failure_keeps_labels:
  "(snd (compute B self) \<noteq> None \<longrightarrow>
      bmr_label (fst (compute B self)) = bmr_label self
      \<and> tdee_label (fst (compute B self)) = tdee_label self
      \<and> ref_label (fst (compute B self)) = ref_label self)
   \<and> (isl (py_int B (age_var self)) \<or> isl (py_float B (weight_var self))
        \<or> isl (py_float B (height_var self)) \<longrightarrow> snd (compute B self) \<noteq> None)
   \<and> (py_int B (age_var self) = Inr a \<and> py_float B (weight_var self) = Inr w
        \<and> py_float B (height_var self) = Inr h
        \<and> isl (sanity_checks a w (weight_unit_var self) h (height_unit_var self))
        \<longrightarrow> snd (compute B self) \<noteq> None)
   \<and> (lower (sex_var self) \<noteq> ''m'' \<and> lower (sex_var self) \<noteq> ''f''
        \<longrightarrow> snd (compute B self) \<noteq> None)
   \<and> (getitem gui_ACTIVITY_FACTORS (activity_var self) = Inl (KeyError (activity_var self))
        \<longrightarrow> snd (compute B self) \<noteq> None)"
proof (intro conjI impI)
  assume f: "snd (compute B self) \<noteq> None"
  then have "fst (compute B self) = self"
    using compute_try_Inl_unchanged [of B self] unfolding compute_fails_iff by blast
  then show "bmr_label (fst (compute B self)) = bmr_label self"
    and "tdee_label (fst (compute B self)) = tdee_label self"
    and "ref_label (fst (compute B self)) = ref_label self"
    by simp_all
next
  assume "isl (py_int B (age_var self)) \<or> isl (py_float B (weight_var self))
        \<or> isl (py_float B (height_var self))"
  then show "snd (compute B self) \<noteq> None"
    unfolding compute_fails_iff by (rule compute_try_parse_fails)
next
  assume "py_int B (age_var self) = Inr a \<and> py_float B (weight_var self) = Inr w
        \<and> py_float B (height_var self) = Inr h
        \<and> isl (sanity_checks a w (weight_unit_var self) h (height_unit_var self))"
  then show "snd (compute B self) \<noteq> None"
    unfolding compute_fails_iff using compute_try_check_fails [of B self a w h] by blast
next
  assume "lower (sex_var self) \<noteq> ''m'' \<and> lower (sex_var self) \<noteq> ''f''"
  then show "snd (compute B self) \<noteq> None"
    unfolding compute_fails_iff using compute_try_sex_fails [of self B] by blast
next
  assume "getitem gui_ACTIVITY_FACTORS (activity_var self) = Inl (KeyError (activity_var self))"
  then show "snd (compute B self) \<noteq> None"
    unfolding compute_fails_iff
    by (auto simp: compute_try_def Let_def split: sum.splits)
qed

theorem compute_failure_keeps_labels_witness:
  "snd (compute
      \<lparr>py_int = (\<lambda>s. if s = ''10'' then Inr 10 else Inl ''invalid literal''),
       py_float = (\<lambda>s. if s = ''70'' then Inr 70 else if s = ''175'' then Inr 175
                        else Inl ''could not convert string to float''),
       py_format = (\<lambda>n x. ''0''), py_repr = (\<lambda>k. k)\<rparr>
      (init\<lparr>age_var := ''10'', weight_var := ''70'', height_var := ''175'',
            bmr_label := ''BMR (kcal/day): 1674''\<rparr>)) \<noteq> None
   \<and> bmr_label (fst (compute
      \<lparr>py_int = (\<lambda>s. if s = ''10'' then Inr 10 else Inl ''invalid literal''),
       py_float = (\<lambda>s. if s = ''70'' then Inr 70 else if s = ''175'' then Inr 175
                        else Inl ''could not convert string to float''),
       py_format = (\<lambda>n x. ''0''), py_repr = (\<lambda>k. k)\<rparr>
      (init\<lparr>age_var := ''10'', weight_var := ''70'', height_var := ''175'',
            bmr_label := ''BMR (kcal/day): 1674''\<rparr>))) = ''BMR (kcal/day): 1674''"
proof -
  let ?B = "\<lparr>py_int = (\<lambda>s. if s = ''10'' then Inr 10 else Inl ''invalid literal''),
       py_float = (\<lambda>s. if s = ''70'' then Inr 70 else if s = ''175'' then Inr 175
                        else Inl ''could not convert string to float''),
       py_format = (\<lambda>n x. ''0''), py_repr = (\<lambda>k. k)\<rparr>"
  let ?s = "init\<lparr>age_var := ''10'', weight_var := ''70'', height_var := ''175'',
            bmr_label := ''BMR (kcal/day): 1674''\<rparr>"
  have p: "py_int ?B (age_var ?s) = Inr 10 \<and> py_float ?B (weight_var ?s) = Inr 70
    \<and> py_float ?B (height_var ?s) = Inr 175
    \<and> isl (sanity_checks 10 70 (weight_unit_var ?s) 175 (height_unit_var ?s))"
    by (simp add: init_def sanity_checks_def)
  note t = compute_failure_keeps_labels [of ?B ?s 10 70 175]
  from t p have f: "snd (compute ?B ?s) \<noteq> None" by blast
  with t have "bmr_label (fst (compute ?B ?s)) = bmr_label ?s" by blast
  with f show ?thesis by simp
qed

text \<open>
  C9. From any state, \<^verbatim>\<open>clear\<close> gives the state that \<^verbatim>\<open>__init__\<close> builds: sex
  \<^verbatim>\<open>m\<close>, weight unit \<^verbatim>\<open>kg\<close>, height unit \<^verbatim>\<open>cm\<close>, the activity selector on the
  second key of the table, the three text fields empty, and each result label
  showing its caption followed by the em dash, the bytes E2 80 94.
\<close>

theorem clear_resets:
  "clear self = init
   \<and> sex_var (clear self) = ''m''
   \<and> weight_unit_var (clear self) = ''kg''
   \<and> height_unit_var (clear self) = ''cm''
   \<and> activity_var (clear self) = fst (gui_ACTIVITY_FACTORS ! 1)
   \<and> activity_var (clear self) = ''Light (1'' @ [CHR 0xE2, CHR 0x80, CHR 0x93] @ ''3 days/wk)''
   \<and> age_var (clear self) = []
   \<and> weight_var (clear self) = []
   \<and> height_var (clear self) = []
   \<and> bmr_label (clear self) = ''BMR (kcal/day): '' @ [CHR 0xE2, CHR 0x80, CHR 0x94]
   \<and> tdee_label (clear self) = ''TDEE (kcal/day): '' @ [CHR 0xE2, CHR 0x80, CHR 0x94]
   \<and> ref_label (clear self) = ''Reference: '' @ [CHR 0xE2, CHR 0x80, CHR 0x94]"
  by (cases self)
    (simp add: clear_def init_def keys_def gui_ACTIVITY_FACTORS_def en_dash_def em_dash_def)

end
